theory Spec2Isabelle
  imports Complex_Main "HOL-Library.AList"
begin

section \<open>The formulas of the notebook brittle\_faults\_p2\<close>

text \<open>
  The markdown cell "Sliding on a wet facture" states the Hubbert-Rubey law twice, in
  mathematical notation. The quantities are real numbers here, as in the text of the
  cell: no code cell of the notebook evaluates either formula in floating point.

  \<^verbatim>\<open>$\tau = C_0 + \mu \sigma_{n}^{eff} = C_0 + \mu (\sigma_n - P_f)$\<close>
\<close>

definition sigma_n_eff :: "real \<Rightarrow> real \<Rightarrow> real" where
  "sigma_n_eff sigma_n P_f = sigma_n - P_f"

definition tau_eff :: "real \<Rightarrow> real \<Rightarrow> real \<Rightarrow> real \<Rightarrow> real" where
  "tau_eff C_0 mu sigma_n P_f = C_0 + mu * sigma_n_eff sigma_n P_f"

text \<open>
  \<^verbatim>\<open>$\lambda = P_f / \sigma_L$\<close> and
  \<^verbatim>\<open>$\tau = C_0 + \mu \sigma_n (1-\lambda)$\<close>
\<close>

definition pore_ratio :: "real \<Rightarrow> real \<Rightarrow> real" where
  "pore_ratio P_f sigma_L = P_f / sigma_L"

definition tau_lambda :: "real \<Rightarrow> real \<Rightarrow> real \<Rightarrow> real \<Rightarrow> real" where
  "tau_lambda C_0 mu sigma_n lam = C_0 + mu * sigma_n * (1 - lam)"

text \<open>
  Modelled from the spec: Coulomb's law \<open>\<tau> = C\<^sub>0 + \<mu>\<sigma>\<^sub>n\<close>, which the spec names as the
  reference the pore-pressure formula reduces to. The notebook that states it (part 1 of
  the series) is not among the sources; in this notebook it is the shape of the first
  equation, taken in the normal stress instead of the effective normal stress.
\<close>

definition coulomb :: "real \<Rightarrow> real \<Rightarrow> real \<Rightarrow> real" where
  "coulomb C_0 mu sigma_n = C_0 + mu * sigma_n"

subsection \<open>The formulas as expressions over named quantities\<close>

text \<open>
  To say which quantities a formula reads, the right-hand sides of the two equations for
  \<open>\<tau>\<close> are also kept as expressions over the names the cell uses. An environment gives
  each name its value, as the notebook's namespace would.
\<close>

datatype formula =
    Var string
  | Const real
  | Add formula formula
  | Sub formula formula
  | Mul formula formula

primrec eval :: "(string \<Rightarrow> real) \<Rightarrow> formula \<Rightarrow> real" where
  "eval env (Var x) = env x"
| "eval env (Const c) = c"
| "eval env (Add a b) = eval env a + eval env b"
| "eval env (Sub a b) = eval env a - eval env b"
| "eval env (Mul a b) = eval env a * eval env b"

primrec inputs :: "formula \<Rightarrow> string list" where
  "inputs (Var x) = [x]"
| "inputs (Const c) = []"
| "inputs (Add a b) = inputs a @ inputs b"
| "inputs (Sub a b) = inputs a @ inputs b"
| "inputs (Mul a b) = inputs a @ inputs b"

definition tau_eff_formula :: formula where
  "tau_eff_formula =
     Add (Var ''C_0'') (Mul (Var ''mu'') (Sub (Var ''sigma_n'') (Var ''P_f'')))"

definition tau_lambda_formula :: formula where
  "tau_lambda_formula =
     Add (Var ''C_0'') (Mul (Mul (Var ''mu'') (Var ''sigma_n'')) (Sub (Const 1) (Var ''lambda'')))"

definition notebook_formulas :: "formula list" where
  "notebook_formulas = [tau_eff_formula, tau_lambda_formula]"

text \<open>
  Modelled from the spec: the evaluation of a formula over a sampled axis. The code
  cells that compute a curve from an array of depths or stresses are in notebooks that
  are not among the sources; the spec describes the result as "a derived output sequence
  computed element-wise from the input axis via the formula". The axis is an ordered
  sequence of values of one named quantity; the scalar parameters come from the
  environment.
\<close>

definition evaluate_over :: "(string \<Rightarrow> real) \<Rightarrow> string \<Rightarrow> real list \<Rightarrow> formula \<Rightarrow> real list" where
  "evaluate_over env axis_name axis f = map (\<lambda>v. eval (env(axis_name := v)) f) axis"

section \<open>The code cells of the notebook\<close>

subsection \<open>Kernel state, library and errors\<close>

text \<open>
  A code cell runs in the kernel of the notebook. What the two code cells touch is the
  global namespace (imports bind names in it, attribute reads look names up in it), the
  rcParams dictionary of matplotlib (global to the library) and the output of the cells.
  Both dictionaries keep insertion order, as Python's do.
\<close>

datatype pyval =
    Module string
  | PyInt int
  | PyFloat real
  | Array "real list"

datatype cell_output =
    Stream string
  | Figure

datatype error =
    ModuleNotFoundError string
  | NameError string
  | AttributeError string string
  | OSError string
  | KeyError string
  | ValueError string

record kernel =
  ns :: "(string \<times> pyval) list"
  rcParams :: "(string \<times> string) list"
  outputs :: "cell_output list"

text \<open>
  The libraries are not part of the repository. What the cells ask of them is a
  parameter: which modules can be imported, the text of a module's attribute (\<open>None\<close>
  when the module has no such attribute), the settings of a named style sheet (\<open>None\<close>
  when matplotlib does not find the style), and which rcParams keys and values
  matplotlib accepts.
\<close>

record library =
  installed :: "string \<Rightarrow> bool"
  module_attr :: "string \<Rightarrow> string \<Rightarrow> string option"
  style_sheet :: "string \<Rightarrow> (string \<times> string) list option"
  rc_key :: "string \<Rightarrow> bool"
  rc_value :: "string \<Rightarrow> string \<Rightarrow> bool"

type_synonym stmt = "kernel \<Rightarrow> error + kernel"

subsection \<open>Statements\<close>

text \<open>
  \<^verbatim>\<open>import m as a\<close>. A dotted name is imported package by package, from the left:
  \<^verbatim>\<open>matplotlib.pyplot\<close> needs \<^verbatim>\<open>matplotlib\<close> first, and the error names the first
  package that is not found. The name \<open>a\<close> is bound to the module \<open>m\<close> itself.
\<close>

fun dotted :: "string \<Rightarrow> string \<Rightarrow> string list" where
  "dotted seen [] = [seen]"
| "dotted seen (c # cs) =
     (if c = CHR ''.'' then seen # dotted (seen @ [c]) cs else dotted (seen @ [c]) cs)"

definition packages :: "string \<Rightarrow> string list" where
  "packages m = dotted [] m"

definition import_as :: "library \<Rightarrow> string \<Rightarrow> string \<Rightarrow> stmt" where
  "import_as L m a k =
     (case find (\<lambda>p. \<not> installed L p) (packages m) of
        Some p \<Rightarrow> Inl (ModuleNotFoundError p)
      | None \<Rightarrow> Inr (k\<lparr>ns := AList.update a (Module m) (ns k)\<rparr>))"

text \<open>Reading a global name, and an attribute of the value it is bound to.\<close>

definition lookup_name :: "string \<Rightarrow> kernel \<Rightarrow> error + pyval" where
  "lookup_name a k = (case map_of (ns k) a of None \<Rightarrow> Inl (NameError a) | Some v \<Rightarrow> Inr v)"

fun getattr :: "library \<Rightarrow> pyval \<Rightarrow> string \<Rightarrow> error + string" where
  "getattr L (Module m) attr =
     (case module_attr L m attr of None \<Rightarrow> Inl (AttributeError m attr) | Some s \<Rightarrow> Inr s)"
| "getattr L (PyInt n) attr = Inl (AttributeError ''int'' attr)"
| "getattr L (PyFloat x) attr = Inl (AttributeError ''float'' attr)"
| "getattr L (Array xs) attr = Inl (AttributeError ''numpy.ndarray'' attr)"

definition read_attr :: "library \<Rightarrow> string \<Rightarrow> string \<Rightarrow> kernel \<Rightarrow> error + string" where
  "read_attr L a attr k =
     (case lookup_name a k of Inl e \<Rightarrow> Inl e | Inr v \<Rightarrow> getattr L v attr)"

text \<open>\<^verbatim>\<open>a.style.use(s)\<close>: the settings of the style sheet are written into rcParams.\<close>

definition style_use :: "library \<Rightarrow> string \<Rightarrow> string \<Rightarrow> stmt" where
  "style_use L a s k =
     (case read_attr L a ''style'' k of
        Inl e \<Rightarrow> Inl e
      | Inr _ \<Rightarrow>
          (case style_sheet L s of
             None \<Rightarrow> Inl (OSError s)
           | Some sheet \<Rightarrow>
               Inr (k\<lparr>rcParams := fold (\<lambda>(key, val). AList.update key val) sheet (rcParams k)\<rparr>)))"

text \<open>\<^verbatim>\<open>a.rcParams[key] = val\<close>\<close>

definition rc_setitem :: "library \<Rightarrow> string \<Rightarrow> string \<Rightarrow> string \<Rightarrow> stmt" where
  "rc_setitem L a key val k =
     (case read_attr L a ''rcParams'' k of
        Inl e \<Rightarrow> Inl e
      | Inr _ \<Rightarrow>
          if \<not> rc_key L key then Inl (KeyError key)
          else if \<not> rc_value L key val then Inl (ValueError val)
          else Inr (k\<lparr>rcParams := AList.update key val (rcParams k)\<rparr>))"

text \<open>
  \<^verbatim>\<open>print(x, y, ...)\<close> writes its arguments, separated by spaces, as one line of the
  cell's output (the line is kept without its newline).
\<close>

fun spaced :: "string list \<Rightarrow> string" where
  "spaced [] = []"
| "spaced [x] = x"
| "spaced (x # y # zs) = x @ '' '' @ spaced (y # zs)"

definition py_print :: "string list \<Rightarrow> stmt" where
  "py_print args k = Inr (k\<lparr>outputs := outputs k @ [Stream (spaced args)]\<rparr>)"

text \<open>\<^verbatim>\<open>print(label, a.attr)\<close>: the argument is evaluated first and may raise.\<close>

definition print_attr :: "library \<Rightarrow> string \<Rightarrow> string \<Rightarrow> string \<Rightarrow> stmt" where
  "print_attr L label a attr k =
     (case read_attr L a attr k of Inl e \<Rightarrow> Inl e | Inr s \<Rightarrow> py_print [label, s] k)"

subsection \<open>The cells and the notebook\<close>

text \<open>
  The first code cell (source lines 23 to 33):
  \<^verbatim>\<open>
  import numpy as np
  import pandas as pd
  import matplotlib.pyplot as plt
  import matplotlib as mpl
  mpl.style.use('fivethirtyeight')
  mpl.rcParams['figure.facecolor'] = 'white'
  mpl.rcParams['axes.facecolor'] = 'white'
  mpl.rcParams['axes.edgecolor'] = 'white'
  \<close>
\<close>

definition cell_setup :: "library \<Rightarrow> stmt list" where
  "cell_setup L =
     [import_as L ''numpy'' ''np'',
      import_as L ''pandas'' ''pd'',
      import_as L ''matplotlib.pyplot'' ''plt'',
      import_as L ''matplotlib'' ''mpl'',
      style_use L ''mpl'' ''fivethirtyeight'',
      rc_setitem L ''mpl'' ''figure.facecolor'' ''white'',
      rc_setitem L ''mpl'' ''axes.facecolor'' ''white'',
      rc_setitem L ''mpl'' ''axes.edgecolor'' ''white'']"

text \<open>
  The second code cell (source lines 65 to 70):
  \<^verbatim>\<open>
  import sys
  print('Notebook tested using:')
  print('Python', sys.version)
  print('Numpy', np.__version__)
  print('Matplotlib', mpl.__version__)
  print('Pandas', pd.__version__)
  \<close>
\<close>

definition cell_versions :: "library \<Rightarrow> stmt list" where
  "cell_versions L =
     [import_as L ''sys'' ''sys'',
      py_print [''Notebook tested using:''],
      print_attr L ''Python'' ''sys'' ''version'',
      print_attr L ''Numpy'' ''np'' ''__version__'',
      print_attr L ''Matplotlib'' ''mpl'' ''__version__'',
      print_attr L ''Pandas'' ''pd'' ''__version__'']"

text \<open>
  A cell runs its statements in order; the first exception ends the cell and is its
  result. Neither cell has a \<^verbatim>\<open>try\<close> statement, so there is no other way through a
  cell.
\<close>

fun run_cell :: "stmt list \<Rightarrow> kernel \<Rightarrow> error + kernel" where
  "run_cell [] k = Inr k"
| "run_cell (s # ss) k = (case s k of Inl e \<Rightarrow> Inl e | Inr k1 \<Rightarrow> run_cell ss k1)"

text \<open>
  The notebook is the list of its cells: a markdown cell, the setup cell, the markdown
  cell with the formulas, the version cell. Run top to bottom, markdown cells do nothing
  to the kernel and a failing code cell stops the run.
\<close>

datatype cell = Markdown | Code "stmt list"

definition brittle_faults_p2 :: "library \<Rightarrow> cell list" where
  "brittle_faults_p2 L = [Markdown, Code (cell_setup L), Markdown, Code (cell_versions L)]"

fun run_notebook :: "cell list \<Rightarrow> kernel \<Rightarrow> error + kernel" where
  "run_notebook [] k = Inr k"
| "run_notebook (Markdown # cs) k = run_notebook cs k"
| "run_notebook (Code ss # cs) k =
     (case run_cell ss k of Inl e \<Rightarrow> Inl e | Inr k1 \<Rightarrow> run_notebook cs k1)"

subsection \<open>A concrete library and kernel\<close>

text \<open>
  An installation to run the cells on: the five modules are there, with version texts
  (Python's is the one recorded in the notebook's metadata), and matplotlib knows the
  style and the three keys.
\<close>

definition lib0 :: library where
  "lib0 = \<lparr>
     installed = (\<lambda>m. m \<in> set [''numpy'', ''pandas'', ''matplotlib.pyplot'', ''matplotlib'', ''sys'']),
     module_attr = (\<lambda>m attr. map_of
        [((''sys'', ''version''), ''3.9.4''),
         ((''numpy'', ''__version__''), ''1.20.1''),
         ((''matplotlib'', ''__version__''), ''3.3.4''),
         ((''pandas'', ''__version__''), ''1.2.4''),
         ((''matplotlib'', ''style''), ''style''),
         ((''matplotlib'', ''rcParams''), ''rcParams'')] (m, attr)),
     style_sheet = (\<lambda>s. map_of
        [(''fivethirtyeight'',
           [(''lines.linewidth'', ''4''), (''axes.facecolor'', ''f0f0f0''),
            (''figure.facecolor'', ''f0f0f0'')])] s),
     rc_key = (\<lambda>key. key \<in> set [''lines.linewidth'', ''figure.facecolor'', ''axes.facecolor'', ''axes.edgecolor'']),
     rc_value = (\<lambda>key val. True) \<rparr>"


text \<open>A restarted kernel, and the kernel after each code cell on \<open>lib0\<close>.\<close>

definition kernel0 :: kernel where
  "kernel0 = \<lparr>ns = [], rcParams = [], outputs = []\<rparr>"

definition kernel1 :: kernel where
  "kernel1 = \<lparr>
     ns = [(''np'', Module ''numpy''), (''pd'', Module ''pandas''),
           (''plt'', Module ''matplotlib.pyplot''), (''mpl'', Module ''matplotlib'')],
     rcParams = [(''lines.linewidth'', ''4''), (''axes.facecolor'', ''white''),
                 (''figure.facecolor'', ''white''), (''axes.edgecolor'', ''white'')],
     outputs = [] \<rparr>"

definition kernel2 :: kernel where
  "kernel2 = kernel1\<lparr>
     ns := ns kernel1 @ [(''sys'', Module ''sys'')],
     outputs := [Stream ''Notebook tested using:'', Stream ''Python 3.9.4'',
                 Stream ''Numpy 1.20.1'', Stream ''Matplotlib 3.3.4'', Stream ''Pandas 1.2.4''] \<rparr>"

subsection \<open>What a kernel holds\<close>

text \<open>
  Three observations on a kernel, to say what a run of the notebook has done: the three
  libraries are bound under the names the notebook gives them; some name is bound to a
  number or an array (the only values an evaluated formula could leave); some output
  is a rendered figure.
\<close>

fun is_numeric :: "pyval \<Rightarrow> bool" where
  "is_numeric (Module m) = False"
| "is_numeric (PyInt n) = True"
| "is_numeric (PyFloat x) = True"
| "is_numeric (Array xs) = True"

definition imports_libraries :: "kernel \<Rightarrow> bool" where
  "imports_libraries k \<longleftrightarrow>
     map_of (ns k) ''np'' = Some (Module ''numpy'')
     \<and> map_of (ns k) ''plt'' = Some (Module ''matplotlib.pyplot'')
     \<and> map_of (ns k) ''pd'' = Some (Module ''pandas'')"

definition holds_numeric :: "kernel \<Rightarrow> bool" where
  "holds_numeric k = list_ex (\<lambda>(n, v). is_numeric v) (ns k)"

definition holds_figure :: "kernel \<Rightarrow> bool" where
  "holds_figure k \<longleftrightarrow> Figure \<in> set (outputs k)"

subsection \<open>What the library refuses\<close>

text \<open>
  The requests the cells make of the library, each with the library's answer: \<open>None\<close>
  when the request is granted, the error the library raises when it is refused. A cell
  makes its requests in order; the first refusal among them is the first answer that is
  an error.
\<close>

definition refused_import :: "library \<Rightarrow> string \<Rightarrow> error option" where
  "refused_import L m =
     (case find (\<lambda>p. \<not> installed L p) (packages m) of
        Some p \<Rightarrow> Some (ModuleNotFoundError p)
      | None \<Rightarrow> None)"









section \<open>Properties of the formulas\<close>

lemma tau_eff_is_coulomb_on_effective_stress:
  "tau_eff C_0 mu sigma_n P_f = coulomb C_0 mu (sigma_n_eff sigma_n P_f)"
  by (simp add: tau_eff_def coulomb_def)

text \<open>
  Claim C1. For every cohesion, friction coefficient and normal stress, the
  pore-pressure-ratio form of the strength, taken at \<open>\<lambda> = 0\<close>, is Coulomb's law.
\<close>

theorem tau_lambda_zero_is_coulomb:
  "tau_lambda C_0 mu sigma_n 0 = coulomb C_0 mu sigma_n"
  by (simp add: tau_lambda_def coulomb_def)

text \<open>
  Claim C9. The two statements of the Hubbert-Rubey law agree when the lithostatic
  stress is the normal stress: for a nonzero normal stress and any pore fluid pressure,
  the effective-stress form equals the ratio form at \<open>\<lambda> = P\<^sub>f / \<sigma>\<^sub>n\<close>.
\<close>

theorem tau_eff_eq_tau_lambda:
  assumes "sigma_n \<noteq> 0"
  shows "tau_eff C_0 mu sigma_n P_f = tau_lambda C_0 mu sigma_n (pore_ratio P_f sigma_n)"
proof -
  have ratio: "sigma_n * (1 - P_f / sigma_n) = sigma_n - P_f"
    using assms by (simp add: right_diff_distrib)
  have "mu * sigma_n * (1 - P_f / sigma_n) = mu * (sigma_n * (1 - P_f / sigma_n))"
    by (rule mult.assoc)
  also have "\<dots> = mu * (sigma_n - P_f)"
    by (simp only: ratio)
  finally have "mu * sigma_n * (1 - P_f / sigma_n) = mu * (sigma_n - P_f)" .
  then show ?thesis
    unfolding tau_eff_def tau_lambda_def sigma_n_eff_def pore_ratio_def
    by (simp only:)
qed

theorem tau_eff_eq_tau_lambda_witness:
  "(20::real) \<noteq> 0 \<and> tau_eff 1 (3/5) 20 5 = 10 \<and> tau_lambda 1 (3/5) 20 (pore_ratio 5 20) = 10"
  using tau_eff_eq_tau_lambda [of 20 1 "3/5" 5]
  by (simp add: tau_eff_def sigma_n_eff_def)

text \<open>
  Claim C10. The strength falls strictly as the pore-pressure ratio rises: with a
  positive friction coefficient and a positive normal stress, a larger \<open>\<lambda>\<close> gives a
  strictly smaller \<open>\<tau>\<close>.
\<close>

theorem tau_lambda_strictly_decreasing:
  assumes "0 < mu" and "0 < sigma_n" and "lam1 < lam2"
  shows "tau_lambda C_0 mu sigma_n lam2 < tau_lambda C_0 mu sigma_n lam1"
proof -
  have "0 < mu * sigma_n"
    using assms(1,2) by simp
  moreover have "1 - lam2 < 1 - lam1"
    using assms(3) by simp
  ultimately have "mu * sigma_n * (1 - lam2) < mu * sigma_n * (1 - lam1)"
    by (rule mult_strict_left_mono [rotated])
  then show ?thesis
    by (simp add: tau_lambda_def)
qed

theorem tau_lambda_strictly_decreasing_witness:
  "(0::real) < 3/5 \<and> (0::real) < 20 \<and> (0::real) < 1/4
   \<and> tau_lambda 1 (3/5) 20 (1/4) < tau_lambda 1 (3/5) 20 0"
  using tau_lambda_strictly_decreasing [of "3/5" 20 0 "1/4" 1]
  by simp

subsection \<open>The expressions and the quantities they read\<close>

lemma eval_tau_eff_formula:
  "eval env tau_eff_formula = tau_eff (env ''C_0'') (env ''mu'') (env ''sigma_n'') (env ''P_f'')"
  by (simp add: tau_eff_formula_def tau_eff_def sigma_n_eff_def)

lemma eval_tau_lambda_formula:
  "eval env tau_lambda_formula
     = tau_lambda (env ''C_0'') (env ''mu'') (env ''sigma_n'') (env ''lambda'')"
  by (simp add: tau_lambda_formula_def tau_lambda_def)

lemma inputs_tau_eff_formula:
  "inputs tau_eff_formula = [''C_0'', ''mu'', ''sigma_n'', ''P_f'']"
  by (simp add: tau_eff_formula_def)

lemma inputs_tau_lambda_formula:
  "inputs tau_lambda_formula = [''C_0'', ''mu'', ''sigma_n'', ''lambda'']"
  by (simp add: tau_lambda_formula_def)

lemma eval_coincidence:
  "(\<And>x. x \<in> set (inputs f) \<Longrightarrow> env1 x = env2 x) \<Longrightarrow> eval env1 f = eval env2 f"
  by (induction f) auto

text \<open>
  Claim C4. A formula of the notebook is a function of its listed inputs only: evaluated
  over the same axis in two environments that agree on the scalar quantities the formula
  names (and may differ anywhere else), it gives the same output sequence.
\<close>

theorem formula_depends_on_inputs_only:
  assumes "f \<in> set notebook_formulas"
    and "\<forall>x \<in> set (inputs f) - {axis_name}. env1 x = env2 x"
  shows "evaluate_over env1 axis_name axis f = evaluate_over env2 axis_name axis f"
proof -
  have "eval (env1(axis_name := v)) f = eval (env2(axis_name := v)) f" for v
    using assms(2) by (intro eval_coincidence) auto
  then show ?thesis
    by (simp add: evaluate_over_def)
qed

theorem formula_depends_on_inputs_only_witness:
  "evaluate_over ((\<lambda>x. 0)(''C_0'' := 1, ''mu'' := 3/5, ''lambda'' := 1/4))
      ''sigma_n'' [10, 20] tau_lambda_formula = [11/2, 10]
   \<and> evaluate_over ((\<lambda>x. 7)(''C_0'' := 1, ''mu'' := 3/5, ''lambda'' := 1/4))
      ''sigma_n'' [10, 20] tau_lambda_formula = [11/2, 10]"
proof -
  let ?env1 = "(\<lambda>x. 0::real)(''C_0'' := 1, ''mu'' := 3/5, ''lambda'' := 1/4)"
  let ?env2 = "(\<lambda>x. 7::real)(''C_0'' := 1, ''mu'' := 3/5, ''lambda'' := 1/4)"
  have listed: "tau_lambda_formula \<in> set notebook_formulas"
    by (simp add: notebook_formulas_def)
  have agree: "\<forall>x \<in> set (inputs tau_lambda_formula) - {''sigma_n''}. ?env1 x = ?env2 x"
    by (auto simp: inputs_tau_lambda_formula)
  have first: "evaluate_over ?env1 ''sigma_n'' [10, 20] tau_lambda_formula = [11/2, 10]"
    by (simp add: evaluate_over_def tau_lambda_formula_def)
  have same: "evaluate_over ?env1 ''sigma_n'' [10, 20] tau_lambda_formula
      = evaluate_over ?env2 ''sigma_n'' [10, 20] tau_lambda_formula"
    by (rule formula_depends_on_inputs_only [OF listed agree])
  have second: "evaluate_over ?env2 ''sigma_n'' [10, 20] tau_lambda_formula = [11/2, 10]"
    by (rule trans [OF same [symmetric] first])
  from first second show ?thesis
    by (rule conjI)
qed

text \<open>
  Claim C5. The output sequence computed element-wise from an input axis has the length
  of the axis, whatever the formula and the scalar parameters.
\<close>

theorem evaluate_over_length:
  "length (evaluate_over env axis_name axis f) = length axis"
  by (simp add: evaluate_over_def)

section \<open>Properties of the code cells\<close>

subsection \<open>Statements\<close>

lemma packages_of_cells:
  "packages ''numpy'' = [''numpy'']"
  "packages ''pandas'' = [''pandas'']"
  "packages ''matplotlib'' = [''matplotlib'']"
  "packages ''matplotlib.pyplot'' = [''matplotlib'', ''matplotlib.pyplot'']"
  "packages ''sys'' = [''sys'']"
  by (simp_all add: packages_def)

lemma import_as_Inr:
  "import_as L m a k = Inr k' \<longleftrightarrow>
     refused_import L m = None \<and> k' = k\<lparr>ns := AList.update a (Module m) (ns k)\<rparr>"
  by (auto simp: import_as_def refused_import_def split: option.splits)


lemma import_as_bound:
  "import_as L m a k = Inr k' \<Longrightarrow> map_of (ns k') = (map_of (ns k))(a \<mapsto> Module m)"
  by (auto simp: import_as_def update_conv' split: option.splits)

lemma read_attr_Inr:
  "read_attr L a attr k = Inr s \<longleftrightarrow>
     (\<exists>m. map_of (ns k) a = Some (Module m) \<and> module_attr L m attr = Some s)"
proof (cases "map_of (ns k) a")
  case None
  then show ?thesis by (simp add: read_attr_def lookup_name_def)
next
  case (Some v)
  then show ?thesis
    by (cases v) (auto simp: read_attr_def lookup_name_def split: option.splits)
qed

lemma style_use_Inr:
  "style_use L a s k = Inr k' \<longleftrightarrow>
     (\<exists>t. read_attr L a ''style'' k = Inr t)
     \<and> (\<exists>sheet. style_sheet L s = Some sheet
          \<and> k' = k\<lparr>rcParams := fold (\<lambda>(key, val). AList.update key val) sheet (rcParams k)\<rparr>)"
  by (auto simp: style_use_def split: sum.splits option.splits)


lemma rc_setitem_Inr:
  "rc_setitem L a key val k = Inr k' \<longleftrightarrow>
     (\<exists>t. read_attr L a ''rcParams'' k = Inr t) \<and> rc_key L key \<and> rc_value L key val
     \<and> k' = k\<lparr>rcParams := AList.update key val (rcParams k)\<rparr>"
  by (auto simp: rc_setitem_def split: sum.splits)


lemma py_print_Inr:
  "py_print args k = Inr k' \<longleftrightarrow> k' = k\<lparr>outputs := outputs k @ [Stream (spaced args)]\<rparr>"
  by (auto simp: py_print_def)


lemma print_attr_Inr:
  "print_attr L label a attr k = Inr k' \<longleftrightarrow>
     (\<exists>s. read_attr L a attr k = Inr s
        \<and> k' = k\<lparr>outputs := outputs k @ [Stream (spaced [label, s])]\<rparr>)"
  by (auto simp: print_attr_def py_print_def split: sum.splits)


lemma map_of_fold_update:
  "map_of (fold (\<lambda>(key, val). AList.update key val) sheet rc) = map_of rc ++ map_of (rev sheet)"
proof (induction sheet arbitrary: rc)
  case Nil
  show ?case by simp
next
  case (Cons kv sheet)
  obtain key val where kv: "kv = (key, val)"
    by (cases kv)
  have "map_of (fold (\<lambda>(key, val). AList.update key val) (kv # sheet) rc)
          = map_of (AList.update key val rc) ++ map_of (rev sheet)"
    using Cons.IH [of "AList.update key val rc"] by (simp add: kv)
  also have "\<dots> = (map_of rc ++ map_of [kv]) ++ map_of (rev sheet)"
    by (simp add: kv update_conv')
  also have "\<dots> = map_of rc ++ map_of (rev (kv # sheet))"
    by (simp only: map_add_assoc rev.simps map_of_append)
  finally show ?case .
qed

lemma update_keeps_modules:
  "\<not> list_ex (\<lambda>(n, v). is_numeric v) al \<Longrightarrow>
     \<not> list_ex (\<lambda>(n, v). is_numeric v) (AList.update a (Module m) al)"
  by (induction al) auto

subsection \<open>Running a cell\<close>

lemma run_cell_Cons_Inr:
  "run_cell (s # ss) k = Inr k' \<longleftrightarrow> (\<exists>k1. s k = Inr k1 \<and> run_cell ss k1 = Inr k')"
  by (cases "s k") auto

subsection \<open>The two cells\<close>

text \<open>What the setup cell does to a kernel, when it succeeds.\<close>

lemma cell_setup_Inr:
  assumes "run_cell (cell_setup L) k = Inr k'"
  shows "\<exists>sheet. style_sheet L ''fivethirtyeight'' = Some sheet \<and>
     k' = k\<lparr>
       ns := AList.update ''mpl'' (Module ''matplotlib'')
              (AList.update ''plt'' (Module ''matplotlib.pyplot'')
                (AList.update ''pd'' (Module ''pandas'')
                  (AList.update ''np'' (Module ''numpy'') (ns k)))),
       rcParams := AList.update ''axes.edgecolor'' ''white''
              (AList.update ''axes.facecolor'' ''white''
                (AList.update ''figure.facecolor'' ''white''
                  (fold (\<lambda>(key, val). AList.update key val) sheet (rcParams k))))\<rparr>"
  using assms
  by (clarsimp simp: cell_setup_def run_cell_Cons_Inr import_as_Inr style_use_Inr rc_setitem_Inr
        simp del: run_cell.simps(2))

text \<open>What the version cell does to a kernel, and what it needs of it, when it succeeds.\<close>

lemma cell_versions_Inr:
  assumes "run_cell (cell_versions L) k = Inr k'"
  shows "\<exists>py np_m np_v mpl_m mpl_v pd_m pd_v.
     module_attr L ''sys'' ''version'' = Some py
     \<and> map_of (ns k) ''np'' = Some (Module np_m) \<and> module_attr L np_m ''__version__'' = Some np_v
     \<and> map_of (ns k) ''mpl'' = Some (Module mpl_m) \<and> module_attr L mpl_m ''__version__'' = Some mpl_v
     \<and> map_of (ns k) ''pd'' = Some (Module pd_m) \<and> module_attr L pd_m ''__version__'' = Some pd_v
     \<and> k' = k\<lparr>
         ns := AList.update ''sys'' (Module ''sys'') (ns k),
         outputs := outputs k @
           [Stream ''Notebook tested using:'', Stream (spaced [''Python'', py]),
            Stream (spaced [''Numpy'', np_v]), Stream (spaced [''Matplotlib'', mpl_v]),
            Stream (spaced [''Pandas'', pd_v])]\<rparr>"
  using assms
  by (clarsimp simp: cell_versions_def run_cell_Cons_Inr import_as_Inr py_print_Inr
        print_attr_Inr read_attr_Inr update_conv' simp del: run_cell.simps(2))

lemma cell_versions_unbound:
  assumes "installed L ''sys''" and "module_attr L ''sys'' ''version'' = Some py"
    and "map_of (ns k) ''np'' = None"
  shows "run_cell (cell_versions L) k = Inl (NameError ''np'')"
  using assms
  by (simp add: cell_versions_def import_as_def packages_of_cells py_print_def print_attr_def
        read_attr_def lookup_name_def update_conv')

lemma run_notebook_Inr_iff:
  "run_notebook (brittle_faults_p2 L) k = Inr k' \<longleftrightarrow>
     (\<exists>k1. run_cell (cell_setup L) k = Inr k1 \<and> run_cell (cell_versions L) k1 = Inr k')"
  by (auto simp: brittle_faults_p2_def split: sum.splits)


subsection \<open>The cells on the concrete library\<close>

lemma setup_on_lib0: "run_cell (cell_setup lib0) kernel0 = Inr kernel1"
  by (simp add: cell_setup_def lib0_def kernel0_def kernel1_def import_as_def packages_of_cells style_use_def
       rc_setitem_def read_attr_def lookup_name_def)

lemma versions_on_lib0: "run_cell (cell_versions lib0) kernel1 = Inr kernel2"
  by (simp add: cell_versions_def lib0_def kernel1_def kernel2_def import_as_def packages_of_cells
       print_attr_def py_print_def read_attr_def lookup_name_def)

lemma versions_first_on_lib0: "run_cell (cell_versions lib0) kernel0 = Inl (NameError ''np'')"
  by (simp add: cell_versions_def lib0_def kernel0_def import_as_def packages_of_cells
       print_attr_def py_print_def read_attr_def lookup_name_def)

lemma notebook_on_lib0: "run_notebook (brittle_faults_p2 lib0) kernel0 = Inr kernel2"
  by (simp add: brittle_faults_p2_def setup_on_lib0 versions_on_lib0)

section \<open>Exceptions\<close>

subsection \<open>Each statement raises what the library refuses\<close>















subsection \<open>No cell handles an exception\<close>




section \<open>What a run of the notebook does\<close>

text \<open>
  On the concrete library the notebook runs from a restarted kernel to \<open>kernel2\<close>, which
  holds the three libraries but no numeric value and no figure: the run has imported,
  but it has neither evaluated an equation nor rendered a chart.
\<close>

theorem notebook_run_counterexample:
  "run_notebook (brittle_faults_p2 lib0) kernel0 = Inr kernel2
   \<and> \<not> holds_numeric kernel2 \<and> \<not> holds_figure kernel2"
proof -
  have "\<not> holds_numeric kernel2"
    by (simp add: holds_numeric_def kernel2_def kernel1_def)
  moreover have "\<not> holds_figure kernel2"
    by (simp add: holds_figure_def kernel2_def kernel1_def)
  ultimately show ?thesis
    using notebook_on_lib0 by blast
qed

text \<open>
  Claim C2, as amended. Run from top to bottom in a kernel that holds no numeric value
  and no figure, the notebook brittle\_faults\_p2 imports the numeric library, the
  plotting library and the dataframe library under the names \<open>np\<close>, \<open>plt\<close> and
  \<open>pd\<close>; it binds no numeric value and puts no figure in the output, that is, it
  evaluates no equation and renders no chart.
\<close>

theorem notebook_run_imports_only:
  assumes "run_notebook (brittle_faults_p2 L) k = Inr k'"
    and "\<not> holds_numeric k" and "\<not> holds_figure k"
  shows "imports_libraries k' \<and> \<not> holds_numeric k' \<and> \<not> holds_figure k'"
proof -
  from assms(1) obtain k1 where
    ran_setup: "run_cell (cell_setup L) k = Inr k1" and
    ran_versions: "run_cell (cell_versions L) k1 = Inr k'"
    using run_notebook_Inr_iff by blast
  from cell_setup_Inr [OF ran_setup] obtain sheet where
    k1: "k1 = k\<lparr>
       ns := AList.update ''mpl'' (Module ''matplotlib'')
              (AList.update ''plt'' (Module ''matplotlib.pyplot'')
                (AList.update ''pd'' (Module ''pandas'')
                  (AList.update ''np'' (Module ''numpy'') (ns k)))),
       rcParams := AList.update ''axes.edgecolor'' ''white''
              (AList.update ''axes.facecolor'' ''white''
                (AList.update ''figure.facecolor'' ''white''
                  (fold (\<lambda>(key, val). AList.update key val) sheet (rcParams k))))\<rparr>"
    by blast
  from cell_versions_Inr [OF ran_versions] obtain py np_v mpl_v pd_v where
    k': "k' = k1\<lparr>
         ns := AList.update ''sys'' (Module ''sys'') (ns k1),
         outputs := outputs k1 @
           [Stream ''Notebook tested using:'', Stream (spaced [''Python'', py]),
            Stream (spaced [''Numpy'', np_v]), Stream (spaced [''Matplotlib'', mpl_v]),
            Stream (spaced [''Pandas'', pd_v])]\<rparr>"
    by blast
  have "imports_libraries k'"
    by (simp add: imports_libraries_def k' k1 update_conv')
  moreover have "\<not> holds_numeric k'"
    using assms(2) by (simp add: holds_numeric_def k' k1 update_keeps_modules)
  moreover have "\<not> holds_figure k'"
    using assms(3) by (simp add: holds_figure_def k' k1)
  ultimately show ?thesis
    by blast
qed

theorem notebook_run_imports_only_witness:
  "run_notebook (brittle_faults_p2 lib0) kernel0 = Inr kernel2
   \<and> \<not> holds_numeric kernel0 \<and> \<not> holds_figure kernel0
   \<and> imports_libraries kernel2 \<and> \<not> holds_numeric kernel2 \<and> \<not> holds_figure kernel2"
proof -
  have start: "\<not> holds_numeric kernel0" "\<not> holds_figure kernel0"
    by (simp_all add: holds_numeric_def holds_figure_def kernel0_def)
  from notebook_run_imports_only [OF notebook_on_lib0 start] notebook_on_lib0 start
  show ?thesis
    by blast
qed

section \<open>The state the cells share\<close>

text \<open>
  On the concrete library the setup cell changes rcParams, which is global to
  matplotlib; and the version cell, run in a restarted kernel, fails on the name
  \<open>np\<close>, while after the setup cell it succeeds: it reads what the setup cell wrote.
\<close>

theorem cells_share_state_counterexample:
  "run_cell (cell_setup lib0) kernel0 = Inr kernel1
   \<and> rcParams kernel1 \<noteq> rcParams kernel0
   \<and> run_cell (cell_versions lib0) kernel0 = Inl (NameError ''np'')
   \<and> run_cell (cell_versions lib0) kernel1 = Inr kernel2"
proof -
  have "rcParams kernel1 \<noteq> rcParams kernel0"
    by (simp add: kernel0_def kernel1_def)
  with setup_on_lib0 versions_first_on_lib0 versions_on_lib0 show ?thesis
    by blast
qed

text \<open>
  Claim C6, as amended. The code cells act on state that is global to the kernel. When
  the setup cell succeeds it has bound the global names \<open>np\<close>, \<open>pd\<close>, \<open>plt\<close> and
  \<open>mpl\<close> and written the settings of the style sheet and the three colours into
  matplotlib's rcParams; every other name and every other key is as before, and so is the
  output. When the version cell succeeds it has bound the global name \<open>sys\<close> and
  appended five lines to the output; every other name and rcParams are as before. The
  version cell reads the names \<open>np\<close>, \<open>mpl\<close> and \<open>pd\<close>, which the setup cell
  binds: they are bound to modules when it succeeds, and the lines it prints are the
  version texts of those modules.
\<close>

theorem cells_act_on_kernel_state:
  assumes ran_setup: "run_cell (cell_setup L) k = Inr k'"
    and ran_versions: "run_cell (cell_versions L) j = Inr j'"
  shows
    "map_of (ns k') = (map_of (ns k))(''np'' \<mapsto> Module ''numpy'', ''pd'' \<mapsto> Module ''pandas'',
        ''plt'' \<mapsto> Module ''matplotlib.pyplot'', ''mpl'' \<mapsto> Module ''matplotlib'')
     \<and> (\<exists>sheet. style_sheet L ''fivethirtyeight'' = Some sheet
          \<and> map_of (rcParams k') = (map_of (rcParams k) ++ map_of (rev sheet))
               (''figure.facecolor'' \<mapsto> ''white'', ''axes.facecolor'' \<mapsto> ''white'',
                ''axes.edgecolor'' \<mapsto> ''white''))
     \<and> outputs k' = outputs k
     \<and> map_of (ns j') = (map_of (ns j))(''sys'' \<mapsto> Module ''sys'')
     \<and> rcParams j' = rcParams j
     \<and> (\<exists>py np_m np_v mpl_m mpl_v pd_m pd_v.
          module_attr L ''sys'' ''version'' = Some py
          \<and> map_of (ns j) ''np'' = Some (Module np_m) \<and> module_attr L np_m ''__version__'' = Some np_v
          \<and> map_of (ns j) ''mpl'' = Some (Module mpl_m) \<and> module_attr L mpl_m ''__version__'' = Some mpl_v
          \<and> map_of (ns j) ''pd'' = Some (Module pd_m) \<and> module_attr L pd_m ''__version__'' = Some pd_v
          \<and> outputs j' = outputs j @
               [Stream ''Notebook tested using:'', Stream (''Python '' @ py),
                Stream (''Numpy '' @ np_v), Stream (''Matplotlib '' @ mpl_v),
                Stream (''Pandas '' @ pd_v)])"
proof -
  from cell_setup_Inr [OF ran_setup] obtain sheet where
    sheet: "style_sheet L ''fivethirtyeight'' = Some sheet" and
    k': "k' = k\<lparr>
       ns := AList.update ''mpl'' (Module ''matplotlib'')
              (AList.update ''plt'' (Module ''matplotlib.pyplot'')
                (AList.update ''pd'' (Module ''pandas'')
                  (AList.update ''np'' (Module ''numpy'') (ns k)))),
       rcParams := AList.update ''axes.edgecolor'' ''white''
              (AList.update ''axes.facecolor'' ''white''
                (AList.update ''figure.facecolor'' ''white''
                  (fold (\<lambda>(key, val). AList.update key val) sheet (rcParams k))))\<rparr>"
    by blast
  have names: "map_of (ns k') = (map_of (ns k))(''np'' \<mapsto> Module ''numpy'',
      ''pd'' \<mapsto> Module ''pandas'', ''plt'' \<mapsto> Module ''matplotlib.pyplot'',
      ''mpl'' \<mapsto> Module ''matplotlib'')"
    by (simp add: k' update_conv')
  have rc: "map_of (rcParams k') = (map_of (rcParams k) ++ map_of (rev sheet))
      (''figure.facecolor'' \<mapsto> ''white'', ''axes.facecolor'' \<mapsto> ''white'',
       ''axes.edgecolor'' \<mapsto> ''white'')"
    by (simp add: k' update_conv' map_of_fold_update)
  have out: "outputs k' = outputs k"
    by (simp add: k')
  from cell_versions_Inr [OF ran_versions] obtain py np_m np_v mpl_m mpl_v pd_m pd_v where
    reads: "module_attr L ''sys'' ''version'' = Some py"
      "map_of (ns j) ''np'' = Some (Module np_m)" "module_attr L np_m ''__version__'' = Some np_v"
      "map_of (ns j) ''mpl'' = Some (Module mpl_m)" "module_attr L mpl_m ''__version__'' = Some mpl_v"
      "map_of (ns j) ''pd'' = Some (Module pd_m)" "module_attr L pd_m ''__version__'' = Some pd_v" and
    j': "j' = j\<lparr>
         ns := AList.update ''sys'' (Module ''sys'') (ns j),
         outputs := outputs j @
           [Stream ''Notebook tested using:'', Stream (spaced [''Python'', py]),
            Stream (spaced [''Numpy'', np_v]), Stream (spaced [''Matplotlib'', mpl_v]),
            Stream (spaced [''Pandas'', pd_v])]\<rparr>"
    by blast
  have names': "map_of (ns j') = (map_of (ns j))(''sys'' \<mapsto> Module ''sys'')"
    by (simp add: j' update_conv')
  have rc': "rcParams j' = rcParams j"
    by (simp add: j')
  have out': "outputs j' = outputs j @
      [Stream ''Notebook tested using:'', Stream (''Python '' @ py),
       Stream (''Numpy '' @ np_v), Stream (''Matplotlib '' @ mpl_v),
       Stream (''Pandas '' @ pd_v)]"
    by (simp add: j')
  from names sheet rc out names' rc' reads out' show ?thesis
    by blast
qed

theorem cells_act_on_kernel_state_witness:
  "run_cell (cell_setup lib0) kernel0 = Inr kernel1
   \<and> run_cell (cell_versions lib0) kernel1 = Inr kernel2
   \<and> outputs kernel1 = outputs kernel0
   \<and> rcParams kernel2 = rcParams kernel1
   \<and> map_of (ns kernel2) = (map_of (ns kernel1))(''sys'' \<mapsto> Module ''sys'')"
  using cells_act_on_kernel_state [OF setup_on_lib0 versions_on_lib0]
    setup_on_lib0 versions_on_lib0
  by blast

end
